theory Spec2Isabelle
  imports Main
begin

section \<open>The state read by the filters of \<^verbatim>\<open>prompt_toolkit/filters/cli.py\<close>\<close>

text \<open>
  Every filter of the module is a class whose \<^verbatim>\<open>__call__(self, cli)\<close> reads a few
  attributes of the command line interface and returns a boolean. The interface is
  modelled as a record holding exactly the attributes that the module reads; the
  filters are functions from that record to \<^typ>\<open>bool\<close>.

  An attribute that holds either \<^verbatim>\<open>None\<close> or some object is an \<open>option\<close> over
  an opaque object reference; such an object is truthy, \<^verbatim>\<open>None\<close> is falsy.
\<close>

type_synonym pyobj = nat

text \<open>
  Modelled from the spec: the constants of \<^verbatim>\<open>prompt_toolkit.enums.EditingMode\<close>
  (\<^verbatim>\<open>enums.py\<close> is not among the sources). The spec gives
  \<^verbatim>\<open>editing_mode: enum{emacs, vi}\<close>.
\<close>

datatype EditingMode = EMACS | VI

text \<open>
  Modelled from the spec: the constants of
  \<^verbatim>\<open>prompt_toolkit.key_binding.vi_state.InputMode\<close> (\<^verbatim>\<open>vi_state.py\<close> is not among the
  sources). The constructor of \<^verbatim>\<open>InViMode\<close> asserts that its argument is a string and
  the spec writes \<^verbatim>\<open>InViMode('navigation')\<close>, \<^verbatim>\<open>InViMode('insert')\<close> over
  \<^verbatim>\<open>vi_input_mode: enum{insert, navigation, replace, ...}\<close>: input modes are strings.
\<close>

definition INSERT :: string where
  "INSERT = ''insert''"

definition NAVIGATION :: string where
  "NAVIGATION = ''navigation''"

definition REPLACE :: string where
  "REPLACE = ''replace''"

text \<open>\<^verbatim>\<open>cli.vi_state\<close>: the attributes \<^verbatim>\<open>input_mode\<close>, \<^verbatim>\<open>operator_func\<close> and
  \<^verbatim>\<open>waiting_for_digraph\<close>.\<close>

record ViState =
  input_mode :: string
  operator_func :: "pyobj option"
  waiting_for_digraph :: bool

text \<open>\<^verbatim>\<open>cli.current_buffer\<close>: \<^verbatim>\<open>is_multiline()\<close> and \<^verbatim>\<open>read_only()\<close> are calls that
  return a boolean; the other three attributes are \<^verbatim>\<open>None\<close> or an object.\<close>

record Buffer =
  selection_state :: "pyobj option"
  complete_state :: "pyobj option"
  is_multiline :: bool
  read_only :: bool
  validation_error :: "pyobj option"

text \<open>
  The command line interface. \<^verbatim>\<open>focus_stack\<close> is \<^verbatim>\<open>cli.buffers.focus_stack\<close>,
  \<^verbatim>\<open>arg\<close> is \<^verbatim>\<open>cli.input_processor.arg\<close> and \<^verbatim>\<open>height_is_known\<close> is
  \<^verbatim>\<open>cli.renderer.height_is_known\<close>.
\<close>

record CLI =
  current_buffer_name :: string
  focus_stack :: "string list"
  current_buffer :: Buffer
  arg :: "pyobj option"
  is_searching :: bool
  is_returning :: bool
  is_aborting :: bool
  is_exiting :: bool
  height_is_known :: bool
  editing_mode :: EditingMode
  vi_state :: ViState

text \<open>
  Modelled from the spec: the property \<^verbatim>\<open>is_done\<close> of the command line interface
  (\<^verbatim>\<open>interface.py\<close> is not among the sources). The spec: "true iff any of Returning,
  Aborting, Exiting is true"; the docstring of \<^verbatim>\<open>IsDone\<close>: "True when the CLI is
  returning, aborting or exiting." The three flags are kept independent, which
  covers the four values of the spec's \<^verbatim>\<open>terminated_as\<close> and every other combination.
\<close>

definition is_done :: "CLI \<Rightarrow> bool" where
  "is_done cli = (is_returning cli \<or> is_aborting cli \<or> is_exiting cli)"


section \<open>The filters\<close>

definition HasFocus :: "string \<Rightarrow> CLI \<Rightarrow> bool" where
  "HasFocus buffer_name cli = (current_buffer_name cli = buffer_name)"

definition InFocusStack :: "string \<Rightarrow> CLI \<Rightarrow> bool" where
  "InFocusStack buffer_name cli = (buffer_name \<in> set (focus_stack cli))"

definition HasSelection :: "CLI \<Rightarrow> bool" where
  "HasSelection cli = (selection_state (current_buffer cli) \<noteq> None)"

definition HasCompletions :: "CLI \<Rightarrow> bool" where
  "HasCompletions cli = (complete_state (current_buffer cli) \<noteq> None)"

definition IsMultiline :: "CLI \<Rightarrow> bool" where
  "IsMultiline cli = is_multiline (current_buffer cli)"

definition IsReadOnly :: "CLI \<Rightarrow> bool" where
  "IsReadOnly cli = read_only (current_buffer cli)"

definition HasValidationError :: "CLI \<Rightarrow> bool" where
  "HasValidationError cli = (validation_error (current_buffer cli) \<noteq> None)"

definition HasArg :: "CLI \<Rightarrow> bool" where
  "HasArg cli = (arg cli \<noteq> None)"

definition HasSearch :: "CLI \<Rightarrow> bool" where
  "HasSearch cli = is_searching cli"

definition IsReturning :: "CLI \<Rightarrow> bool" where
  "IsReturning cli = is_returning cli"

definition IsAborting :: "CLI \<Rightarrow> bool" where
  "IsAborting cli = is_aborting cli"

definition IsExiting :: "CLI \<Rightarrow> bool" where
  "IsExiting cli = is_exiting cli"

definition IsDone :: "CLI \<Rightarrow> bool" where
  "IsDone cli = is_done cli"

definition RendererHeightIsKnown :: "CLI \<Rightarrow> bool" where
  "RendererHeightIsKnown cli = height_is_known cli"

text \<open>
  \<^verbatim>\<open>InViMode(mode).__call__(cli)\<close>: first the early return while an operator or a
  digraph is pending, then the input mode, which is \<^verbatim>\<open>NAVIGATION\<close> for a read-only
  buffer, compared with \<^verbatim>\<open>self.mode\<close>. The editing mode is not read.
\<close>

definition InViMode :: "string \<Rightarrow> CLI \<Rightarrow> bool" where
  "InViMode mode cli =
     (if operator_func (vi_state cli) \<noteq> None \<or> waiting_for_digraph (vi_state cli)
      then False
      else (if read_only (current_buffer cli) then NAVIGATION
            else input_mode (vi_state cli)) = mode)"

definition InEditingMode :: "EditingMode \<Rightarrow> CLI \<Rightarrow> bool" where
  "InEditingMode mode cli = (editing_mode cli = mode)"

text \<open>\<^verbatim>\<open>CanInsert.__call__(cli)\<close>: the buffer's read-only flag and
  \<^verbatim>\<open>waiting_for_digraph\<close> are not read.\<close>

definition CanInsert :: "CLI \<Rightarrow> bool" where
  "CanInsert cli =
     (editing_mode cli \<noteq> VI \<or>
      (operator_func (vi_state cli) = None \<and> input_mode (vi_state cli) = INSERT))"


section \<open>Composition of filters\<close>

text \<open>
  Modelled from the spec: the class \<^verbatim>\<open>Filter\<close> of \<^verbatim>\<open>prompt_toolkit/filters/base.py\<close>
  and its combinators (\<^verbatim>\<open>base.py\<close> is not among the sources). The spec: a filter has
  \<^verbatim>\<open>evaluate(state) -> bool\<close> and a textual representation; "\<^verbatim>\<open>AND(other)\<close>: evaluates
  self first; if false, returns false without evaluating other"; "\<^verbatim>\<open>OR(other)\<close>:
  evaluates self first; if true, returns true without evaluating other";
  "\<^verbatim>\<open>NOT()\<close>: returns the logical negation". Composites are filters themselves.

  The evaluation of a leaf may raise, which is the value \<open>Inl\<close>; an error raised by
  a child propagates through the composite that evaluated it.
\<close>

datatype error = Raised string

datatype 'cli Filter =
    Leaf string "'cli \<Rightarrow> error + bool"
  | AND "'cli Filter" "'cli Filter"
  | OR "'cli Filter" "'cli Filter"
  | NOT "'cli Filter"

fun evaluate :: "'cli Filter \<Rightarrow> 'cli \<Rightarrow> error + bool" where
  "evaluate (Leaf name call) s = call s"
| "evaluate (AND f g) s =
     (case evaluate f s of
        Inl e \<Rightarrow> Inl e
      | Inr b \<Rightarrow> if b then evaluate g s else Inr False)"
| "evaluate (OR f g) s =
     (case evaluate f s of
        Inl e \<Rightarrow> Inl e
      | Inr b \<Rightarrow> if b then Inr True else evaluate g s)"
| "evaluate (NOT f) s =
     (case evaluate f s of
        Inl e \<Rightarrow> Inl e
      | Inr b \<Rightarrow> Inr (\<not> b))"

text \<open>The leaves that one evaluation calls, by their textual representation, in
  the order of the calls.\<close>

fun calls :: "'cli Filter \<Rightarrow> 'cli \<Rightarrow> string list" where
  "calls (Leaf name call) s = [name]"
| "calls (AND f g) s =
     calls f s @ (case evaluate f s of Inl e \<Rightarrow> [] | Inr b \<Rightarrow> if b then calls g s else [])"
| "calls (OR f g) s =
     calls f s @ (case evaluate f s of Inl e \<Rightarrow> [] | Inr b \<Rightarrow> if b then [] else calls g s)"
| "calls (NOT f) s = calls f s"

text \<open>A filter of \<^verbatim>\<open>cli.py\<close> as a leaf: its \<^verbatim>\<open>__call__\<close> returns a boolean.\<close>

definition leaf_of :: "string \<Rightarrow> ('cli \<Rightarrow> bool) \<Rightarrow> 'cli Filter" where
  "leaf_of name call = Leaf name (\<lambda>s. Inr (call s))"

text \<open>A leaf whose evaluation raises.\<close>

definition raising :: "string \<Rightarrow> 'cli Filter" where
  "raising name = Leaf name (\<lambda>s. Inl (Raised name))"


section \<open>Snapshots used as concrete inputs\<close>

definition default_buffer :: Buffer where
  "default_buffer =
     \<lparr>selection_state = None, complete_state = None, is_multiline = False,
      read_only = False, validation_error = None\<rparr>"

definition default_cli :: CLI where
  "default_cli =
     \<lparr>current_buffer_name = ''DEFAULT_BUFFER'', focus_stack = [''DEFAULT_BUFFER''],
      current_buffer = default_buffer, arg = None, is_searching = False,
      is_returning = False, is_aborting = False, is_exiting = False,
      height_is_known = False, editing_mode = EMACS,
      vi_state = \<lparr>input_mode = INSERT, operator_func = None,
                  waiting_for_digraph = False\<rparr>\<rparr>"

text \<open>Vi editing mode, insert mode, nothing pending.\<close>

definition vi_insert_cli :: CLI where
  "vi_insert_cli = default_cli\<lparr>editing_mode := VI\<rparr>"

text \<open>Vi editing mode, navigation mode, an operator waiting for its text object.\<close>

definition operator_pending_cli :: CLI where
  "operator_pending_cli =
     default_cli\<lparr>editing_mode := VI,
       vi_state := \<lparr>input_mode = NAVIGATION, operator_func = Some 1,
                    waiting_for_digraph = False\<rparr>\<rparr>"

text \<open>Vi editing mode, insert mode, the second key of a digraph awaited.\<close>

definition digraph_cli :: CLI where
  "digraph_cli =
     default_cli\<lparr>editing_mode := VI,
       vi_state := \<lparr>input_mode = INSERT, operator_func = None,
                    waiting_for_digraph = True\<rparr>\<rparr>"

text \<open>Vi editing mode, insert mode recorded, the current buffer read-only.\<close>

definition read_only_cli :: CLI where
  "read_only_cli =
     default_cli\<lparr>editing_mode := VI,
       current_buffer := default_buffer\<lparr>read_only := True\<rparr>\<rparr>"

text \<open>Control-C pressed.\<close>

definition aborting_cli :: CLI where
  "aborting_cli = default_cli\<lparr>is_aborting := True\<rparr>"

lemmas snapshot_defs =
  default_buffer_def default_cli_def vi_insert_cli_def operator_pending_cli_def
  digraph_cli_def read_only_cli_def aborting_cli_def

lemmas mode_defs = INSERT_def NAVIGATION_def REPLACE_def


section \<open>Properties\<close>

lemma NAVIGATION_neq_INSERT: "NAVIGATION \<noteq> INSERT"
  by (simp add: mode_defs)

text \<open>
  C1. While a Vi operator is pending (\<^verbatim>\<open>operator_func\<close> is set) or a digraph is being
  composed (\<^verbatim>\<open>waiting_for_digraph\<close> is true), \<^verbatim>\<open>InViMode(m)\<close> evaluates to false,
  for every mode argument \<open>m\<close>.
\<close>

theorem InViMode_pending_False:
  assumes "operator_func (vi_state cli) \<noteq> None \<or> waiting_for_digraph (vi_state cli)"
  shows "\<not> InViMode m cli"
  using assms by (simp add: InViMode_def)

theorem InViMode_pending_False_witness:
  "operator_func (vi_state operator_pending_cli) \<noteq> None
   \<and> \<not> InViMode NAVIGATION operator_pending_cli
   \<and> waiting_for_digraph (vi_state digraph_cli)
   \<and> \<not> InViMode INSERT digraph_cli"
proof -
  have op: "operator_func (vi_state operator_pending_cli) \<noteq> None"
    by (simp add: snapshot_defs)
  have dg: "waiting_for_digraph (vi_state digraph_cli)"
    by (simp add: snapshot_defs)
  from op have "\<not> InViMode NAVIGATION operator_pending_cli"
    by (intro InViMode_pending_False) simp
  moreover from dg have "\<not> InViMode INSERT digraph_cli"
    by (intro InViMode_pending_False) simp
  ultimately show ?thesis using op dg by simp
qed

text \<open>
  C2. On a snapshot whose current buffer is read-only, with no operator pending and no
  digraph being composed, \<^verbatim>\<open>InViMode(NAVIGATION)\<close> evaluates to true whatever the
  recorded input mode is, and \<^verbatim>\<open>InViMode(m)\<close> evaluates to false for every other
  mode \<open>m\<close>.
\<close>

theorem InViMode_read_only:
  assumes "read_only (current_buffer cli)"
    and "operator_func (vi_state cli) = None"
    and "\<not> waiting_for_digraph (vi_state cli)"
  shows "InViMode NAVIGATION cli \<and> (\<forall>m. m \<noteq> NAVIGATION \<longrightarrow> \<not> InViMode m cli)"
  using assms by (auto simp add: InViMode_def)

theorem InViMode_read_only_witness:
  "read_only (current_buffer read_only_cli)
   \<and> operator_func (vi_state read_only_cli) = None
   \<and> \<not> waiting_for_digraph (vi_state read_only_cli)
   \<and> input_mode (vi_state read_only_cli) = INSERT
   \<and> InViMode NAVIGATION read_only_cli
   \<and> \<not> InViMode INSERT read_only_cli"
proof -
  have ro: "read_only (current_buffer read_only_cli)"
    and op: "operator_func (vi_state read_only_cli) = None"
    and dg: "\<not> waiting_for_digraph (vi_state read_only_cli)"
    and raw: "input_mode (vi_state read_only_cli) = INSERT"
    by (simp_all add: snapshot_defs)
  from InViMode_read_only [OF ro op dg] NAVIGATION_neq_INSERT
  have "InViMode NAVIGATION read_only_cli" and "\<not> InViMode INSERT read_only_cli"
    by auto
  with ro op dg raw show ?thesis by simp
qed

text \<open>
  C3, as the spec states it: \<^verbatim>\<open>InViMode(m)\<close> evaluates to false on every snapshot
  whose editing mode is Emacs. It fails on the snapshot \<^term>\<open>default_cli\<close>: the
  editing mode is Emacs, the recorded input mode is insert, nothing is pending, and
  \<^verbatim>\<open>InViMode(INSERT)\<close> evaluates to true.
\<close>

theorem InViMode_Emacs_counterexample:
  "editing_mode default_cli = EMACS \<and> InViMode INSERT default_cli"
  by (simp add: InViMode_def snapshot_defs)

text \<open>
  C3, amended: \<^verbatim>\<open>InViMode(m)\<close> does not read the editing mode. Its value is the
  same whatever the editing mode of the snapshot is set to; it is true exactly when no
  operator is pending, no digraph is awaited and the effective input mode (navigation
  for a read-only buffer, the recorded input mode otherwise) equals \<open>m\<close>. On a
  snapshot whose editing mode is Emacs it is the conjunction of
  \<^verbatim>\<open>InEditingMode(VI)\<close> and \<^verbatim>\<open>InViMode(m)\<close> that is false for every \<open>m\<close>.
\<close>

theorem InViMode_ignores_editing_mode:
  "InViMode m (cli\<lparr>editing_mode := e\<rparr>) = InViMode m cli
   \<and> (InViMode m cli \<longleftrightarrow>
        operator_func (vi_state cli) = None \<and> \<not> waiting_for_digraph (vi_state cli)
        \<and> (if read_only (current_buffer cli) then NAVIGATION
            else input_mode (vi_state cli)) = m)
   \<and> (editing_mode cli = EMACS \<longrightarrow> \<not> (InEditingMode VI cli \<and> InViMode m cli))"
  by (simp add: InViMode_def InEditingMode_def)

theorem InViMode_ignores_editing_mode_witness:
  "InViMode INSERT (default_cli\<lparr>editing_mode := VI\<rparr>) = InViMode INSERT default_cli
   \<and> InViMode INSERT default_cli
   \<and> editing_mode default_cli = EMACS
   \<and> \<not> (InEditingMode VI default_cli \<and> InViMode INSERT default_cli)"
proof -
  have emacs: "editing_mode default_cli = EMACS"
    by (simp add: snapshot_defs)
  have "operator_func (vi_state default_cli) = None"
    and "\<not> waiting_for_digraph (vi_state default_cli)"
    and "(if read_only (current_buffer default_cli) then NAVIGATION
          else input_mode (vi_state default_cli)) = INSERT"
    by (simp_all add: snapshot_defs)
  with emacs
    InViMode_ignores_editing_mode [where m = INSERT and cli = default_cli and e = VI]
  show ?thesis by blast
qed

text \<open>
  C4. \<^verbatim>\<open>CanInsert\<close> evaluates to true when the editing mode is not Vi; when the
  editing mode is Vi, it evaluates to true if and only if no operator is pending and
  the recorded input mode is insert.
\<close>

theorem CanInsert_iff:
  "(editing_mode cli \<noteq> VI \<longrightarrow> CanInsert cli)
   \<and> (editing_mode cli = VI \<longrightarrow>
        (CanInsert cli \<longleftrightarrow>
           operator_func (vi_state cli) = None \<and> input_mode (vi_state cli) = INSERT))"
  by (simp add: CanInsert_def)

theorem CanInsert_iff_witness:
  "editing_mode default_cli \<noteq> VI \<and> CanInsert default_cli
   \<and> editing_mode vi_insert_cli = VI \<and> CanInsert vi_insert_cli
   \<and> editing_mode operator_pending_cli = VI \<and> \<not> CanInsert operator_pending_cli"
proof -
  have emacs: "editing_mode default_cli \<noteq> VI"
    and vi: "editing_mode vi_insert_cli = VI"
    and ins: "operator_func (vi_state vi_insert_cli) = None
              \<and> input_mode (vi_state vi_insert_cli) = INSERT"
    and vi': "editing_mode operator_pending_cli = VI"
    and op: "operator_func (vi_state operator_pending_cli) \<noteq> None"
    by (simp_all add: snapshot_defs)
  with CanInsert_iff [of default_cli] CanInsert_iff [of vi_insert_cli]
    CanInsert_iff [of operator_pending_cli]
  show ?thesis by blast
qed

text \<open>
  C5, as the spec states it: on a snapshot with a read-only buffer, the recorded input
  mode insert, the editing mode Vi and nothing pending, \<^verbatim>\<open>CanInsert\<close> evaluates to
  false. It fails on the snapshot \<^term>\<open>read_only_cli\<close>, which is such a snapshot and
  on which \<^verbatim>\<open>CanInsert\<close> evaluates to true.
\<close>

theorem CanInsert_read_only_counterexample:
  "read_only (current_buffer read_only_cli)
   \<and> input_mode (vi_state read_only_cli) = INSERT
   \<and> editing_mode read_only_cli = VI
   \<and> operator_func (vi_state read_only_cli) = None
   \<and> \<not> waiting_for_digraph (vi_state read_only_cli)
   \<and> CanInsert read_only_cli"
  by (simp add: CanInsert_def snapshot_defs)

text \<open>
  C5, amended: on every snapshot with a read-only buffer, the recorded input mode
  insert, the editing mode Vi and neither an operator nor a digraph pending,
  \<^verbatim>\<open>InViMode(NAVIGATION)\<close> evaluates to true, \<^verbatim>\<open>InViMode(INSERT)\<close> evaluates to false
  and \<^verbatim>\<open>CanInsert\<close> evaluates to true: \<^verbatim>\<open>CanInsert\<close> compares the recorded input
  mode and does not read the read-only flag.
\<close>

theorem read_only_insert_scenario:
  assumes "read_only (current_buffer cli)"
    and "input_mode (vi_state cli) = INSERT"
    and "editing_mode cli = VI"
    and "operator_func (vi_state cli) = None"
    and "\<not> waiting_for_digraph (vi_state cli)"
  shows "InViMode NAVIGATION cli \<and> \<not> InViMode INSERT cli \<and> CanInsert cli"
  using assms NAVIGATION_neq_INSERT by (simp add: InViMode_def CanInsert_def)

theorem read_only_insert_scenario_witness:
  "InViMode NAVIGATION read_only_cli \<and> \<not> InViMode INSERT read_only_cli
   \<and> CanInsert read_only_cli \<and> IsReadOnly read_only_cli"
proof -
  have "read_only (current_buffer read_only_cli)"
    and "input_mode (vi_state read_only_cli) = INSERT"
    and "editing_mode read_only_cli = VI"
    and "operator_func (vi_state read_only_cli) = None"
    and "\<not> waiting_for_digraph (vi_state read_only_cli)"
    by (simp_all add: snapshot_defs)
  then show ?thesis
    using read_only_insert_scenario [of read_only_cli] by (simp add: IsReadOnly_def)
qed

text \<open>
  C6. \<^verbatim>\<open>IsDone\<close> evaluates to true if and only if at least one of
  \<^verbatim>\<open>IsReturning\<close>, \<^verbatim>\<open>IsAborting\<close> and \<^verbatim>\<open>IsExiting\<close> evaluates to true, on every
  snapshot, that is for each of the eight combinations of the three flags.
\<close>

theorem IsDone_iff:
  "IsDone cli \<longleftrightarrow> IsReturning cli \<or> IsAborting cli \<or> IsExiting cli"
  by (simp add: IsDone_def is_done_def IsReturning_def IsAborting_def IsExiting_def)

theorem IsDone_iff_witness:
  "IsAborting aborting_cli \<and> \<not> IsReturning aborting_cli \<and> IsDone aborting_cli
   \<and> \<not> IsReturning default_cli \<and> \<not> IsAborting default_cli
   \<and> \<not> IsExiting default_cli \<and> \<not> IsDone default_cli"
proof -
  have "IsAborting aborting_cli" and "\<not> IsReturning aborting_cli"
    and "\<not> IsReturning default_cli" and "\<not> IsAborting default_cli"
    and "\<not> IsExiting default_cli"
    by (simp_all add: IsAborting_def IsReturning_def IsExiting_def snapshot_defs)
  then show ?thesis
    using IsDone_iff [of aborting_cli] IsDone_iff [of default_cli] by blast
qed

text \<open>
  C7. For filters \<open>f\<close> and \<open>g\<close> whose evaluation on the snapshot \<open>s\<close> returns the
  booleans \<open>a\<close> and \<open>b\<close>: \<open>f AND g\<close> evaluates to the conjunction of \<open>a\<close> and \<open>b\<close>,
  \<open>f OR g\<close> to their disjunction, and \<open>NOT f\<close> to the negation of \<open>a\<close>.
\<close>

theorem Filter_boolean_algebra:
  assumes "evaluate f s = Inr a" and "evaluate g s = Inr b"
  shows "evaluate (AND f g) s = Inr (a \<and> b)
         \<and> evaluate (OR f g) s = Inr (a \<or> b)
         \<and> evaluate (NOT f) s = Inr (\<not> a)"
  using assms by simp

theorem Filter_boolean_algebra_witness:
  "evaluate (leaf_of ''CanInsert()'' CanInsert) digraph_cli = Inr True
   \<and> evaluate (leaf_of ''InViMode(INSERT)'' (InViMode INSERT)) digraph_cli = Inr False
   \<and> evaluate (AND (leaf_of ''CanInsert()'' CanInsert)
                    (leaf_of ''InViMode(INSERT)'' (InViMode INSERT))) digraph_cli = Inr False
   \<and> evaluate (OR (leaf_of ''CanInsert()'' CanInsert)
                   (leaf_of ''InViMode(INSERT)'' (InViMode INSERT))) digraph_cli = Inr True
   \<and> evaluate (NOT (leaf_of ''CanInsert()'' CanInsert)) digraph_cli = Inr False"
proof -
  have f: "evaluate (leaf_of ''CanInsert()'' CanInsert) digraph_cli = Inr True"
    by (simp add: leaf_of_def CanInsert_def snapshot_defs)
  have g: "evaluate (leaf_of ''InViMode(INSERT)'' (InViMode INSERT)) digraph_cli = Inr False"
    by (simp add: leaf_of_def InViMode_def snapshot_defs)
  from Filter_boolean_algebra [OF f g] f g show ?thesis by simp
qed

text \<open>
  C8. \<open>AND\<close> short-circuits: when \<open>f\<close> evaluates to false on the snapshot \<open>s\<close>, then
  for every filter \<open>g\<close>, also one whose evaluation raises, \<open>f AND g\<close> evaluates to
  false on \<open>s\<close> and does not raise, and the evaluation calls the leaves of \<open>f\<close> only.
\<close>

theorem AND_short_circuit:
  assumes "evaluate f s = Inr False"
  shows "evaluate (AND f g) s = Inr False \<and> calls (AND f g) s = calls f s"
  using assms by simp

theorem AND_short_circuit_witness:
  "evaluate (leaf_of ''HasSearch()'' HasSearch) default_cli = Inr False
   \<and> evaluate (raising ''g'') default_cli = Inl (Raised ''g'')
   \<and> evaluate (AND (leaf_of ''HasSearch()'' HasSearch) (raising ''g'')) default_cli
       = Inr False
   \<and> calls (AND (leaf_of ''HasSearch()'' HasSearch) (raising ''g'')) default_cli
       = [''HasSearch()'']"
proof -
  have f: "evaluate (leaf_of ''HasSearch()'' HasSearch) default_cli = Inr False"
    by (simp add: leaf_of_def HasSearch_def snapshot_defs)
  have g: "evaluate (raising ''g'') default_cli = Inl (Raised ''g'')"
    by (simp add: raising_def)
  have c: "calls (leaf_of ''HasSearch()'' HasSearch) default_cli = [''HasSearch()'']"
    by (simp add: leaf_of_def)
  from AND_short_circuit [OF f, of "raising ''g''"] f g c show ?thesis by simp
qed

text \<open>
  C9. \<^verbatim>\<open>CanInsert\<close> does not read \<^verbatim>\<open>waiting_for_digraph\<close>: setting the flag to any
  value leaves its result unchanged. There is a snapshot with the editing mode Vi, a
  digraph awaited, no operator pending and the recorded input mode insert on which
  \<^verbatim>\<open>CanInsert\<close> evaluates to true while \<^verbatim>\<open>InViMode(INSERT)\<close> evaluates to false.
\<close>

theorem CanInsert_ignores_digraph:
  "(\<forall>cli b. CanInsert (cli\<lparr>vi_state := (vi_state cli)\<lparr>waiting_for_digraph := b\<rparr>\<rparr>)
             = CanInsert cli)
   \<and> (\<exists>cli. editing_mode cli = VI \<and> waiting_for_digraph (vi_state cli)
          \<and> operator_func (vi_state cli) = None \<and> input_mode (vi_state cli) = INSERT
          \<and> CanInsert cli \<and> \<not> InViMode INSERT cli)"
proof
  show "\<forall>cli b. CanInsert (cli\<lparr>vi_state := (vi_state cli)\<lparr>waiting_for_digraph := b\<rparr>\<rparr>)
          = CanInsert cli"
    by (simp add: CanInsert_def)
next
  have "editing_mode digraph_cli = VI \<and> waiting_for_digraph (vi_state digraph_cli)
        \<and> operator_func (vi_state digraph_cli) = None
        \<and> input_mode (vi_state digraph_cli) = INSERT
        \<and> CanInsert digraph_cli \<and> \<not> InViMode INSERT digraph_cli"
    by (simp add: CanInsert_def InViMode_def snapshot_defs)
  then show "\<exists>cli. editing_mode cli = VI \<and> waiting_for_digraph (vi_state cli)
          \<and> operator_func (vi_state cli) = None \<and> input_mode (vi_state cli) = INSERT
          \<and> CanInsert cli \<and> \<not> InViMode INSERT cli"
    by (rule exI)
qed

theorem CanInsert_ignores_digraph_witness:
  "CanInsert vi_insert_cli
   \<and> CanInsert (vi_insert_cli\<lparr>vi_state := (vi_state vi_insert_cli)\<lparr>waiting_for_digraph := True\<rparr>\<rparr>)
   \<and> \<not> InViMode INSERT
         (vi_insert_cli\<lparr>vi_state := (vi_state vi_insert_cli)\<lparr>waiting_for_digraph := True\<rparr>\<rparr>)"
proof -
  have ci: "CanInsert vi_insert_cli"
    by (simp add: CanInsert_def snapshot_defs)
  have nv: "\<not> InViMode INSERT
      (vi_insert_cli\<lparr>vi_state := (vi_state vi_insert_cli)\<lparr>waiting_for_digraph := True\<rparr>\<rparr>)"
    by (simp add: InViMode_def)
  from CanInsert_ignores_digraph ci nv show ?thesis by blast
qed

text \<open>
  C10. The filters \<^verbatim>\<open>InViMode(m)\<close> are mutually exclusive: for distinct mode
  arguments \<open>m1\<close> and \<open>m2\<close>, \<^verbatim>\<open>InViMode(m1)\<close> and \<^verbatim>\<open>InViMode(m2)\<close> never both
  evaluate to true on one snapshot.
\<close>

theorem InViMode_mutually_exclusive:
  assumes "m1 \<noteq> m2"
  shows "\<not> (InViMode m1 cli \<and> InViMode m2 cli)"
  using assms by (auto simp add: InViMode_def split: if_splits)

theorem InViMode_mutually_exclusive_witness:
  "NAVIGATION \<noteq> INSERT \<and> InViMode INSERT vi_insert_cli
   \<and> \<not> InViMode NAVIGATION vi_insert_cli"
proof -
  have ins: "InViMode INSERT vi_insert_cli"
    by (simp add: InViMode_def snapshot_defs)
  from InViMode_mutually_exclusive [OF NAVIGATION_neq_INSERT, of vi_insert_cli] ins
    NAVIGATION_neq_INSERT
  show ?thesis by blast
qed

end
